theory Spec2Isabelle
  imports Complex_Main "HOL-Library.Multiset"
begin

section \<open>JavaScript values used by App.tsx\<close>

text \<open>
  A JavaScript number is a binary64 value. A finite one is modelled by the real number it
  denotes, and NaN is kept apart. Every arithmetic operation of \<^verbatim>\<open>calculateDistances\<close>
  rounds its exact result; the rounding is the parameter \<open>rnd\<close> of the model, and nothing
  is assumed about it unless a statement says so, so that every theorem below holds for
  the rounding of binary64 as for any other. What stays outside the model is the range:
  a rounded result is again a finite number (no overflow to an infinity, no signed zero).
  Every division in \<^verbatim>\<open>calculateDistances\<close> has a non-zero divisor (the literals 1000 and
  60, and \<^verbatim>\<open>pointsOfInterest.length\<close> behind the guard of line 339), so the infinities
  that JavaScript produces on a zero divisor are never reached; \<open>num_div\<close> answers NaN
  there, which is what JavaScript gives for 0 / 0.
\<close>

datatype number = Fin real | NaN

fun num_add :: "(real \<Rightarrow> real) \<Rightarrow> number \<Rightarrow> number \<Rightarrow> number" where
  "num_add rnd (Fin x) (Fin y) = Fin (rnd (x + y))"
| "num_add rnd _ _ = NaN"

fun num_mul :: "(real \<Rightarrow> real) \<Rightarrow> number \<Rightarrow> number \<Rightarrow> number" where
  "num_mul rnd (Fin x) (Fin y) = Fin (rnd (x * y))"
| "num_mul rnd _ _ = NaN"

fun num_div :: "(real \<Rightarrow> real) \<Rightarrow> number \<Rightarrow> number \<Rightarrow> number" where
  "num_div rnd (Fin x) (Fin y) = (if y = 0 then NaN else Fin (rnd (x / y)))"
| "num_div rnd _ _ = NaN"

text \<open>\<^verbatim>\<open>x || 0\<close> on an optional number: undefined, NaN and 0 are falsy.\<close>

fun or_zero :: "number option \<Rightarrow> real" where
  "or_zero None = 0"
| "or_zero (Some NaN) = 0"
| "or_zero (Some (Fin x)) = x"

text \<open>
  A cell of a matrix in the parsed JSON body is a number or \<^verbatim>\<open>null\<close>; reading past the
  end of a row gives \<^verbatim>\<open>undefined\<close> (\<open>None\<close>). \<open>to_number\<close> is the coercion that
  \<^verbatim>\<open>/\<close> applies to its left operand: \<^verbatim>\<open>null\<close> becomes 0 and \<^verbatim>\<open>undefined\<close> becomes NaN.
\<close>

datatype cell = Num real | Null

fun to_number :: "cell option \<Rightarrow> number" where
  "to_number None = NaN"
| "to_number (Some Null) = Fin 0"
| "to_number (Some (Num x)) = Fin x"

datatype thrown =
  HTTPError int
| ClientRejected
| TypeError

datatype 'a completion = Returns 'a | Throws thrown

section \<open>Data model\<close>

record LatLon =
  lat :: real
  lon :: real

record Location =
  coordinates :: LatLon
  address :: string
  placeName :: "string option"

text \<open>
  The fields \<^verbatim>\<open>id\<close> and \<^verbatim>\<open>note\<close> are written \<open>id'\<close> and \<open>note'\<close>. Coordinates are
  only copied into the request, so they are plain reals.
\<close>

record PointOfInterest =
  id' :: string
  name :: string
  location :: Location
  note' :: "string option"
  url :: "string option"

record DistanceToPOI =
  distance :: number
  duration :: number

text \<open>
  \<^verbatim>\<open>PlaceToStay\<close> repeats the five fields of \<^verbatim>\<open>PointOfInterest\<close> and adds the derived
  ones, each optional (\<open>None\<close> is \<^verbatim>\<open>undefined\<close>). The object \<^verbatim>\<open>distancesToPOIs\<close> is a map
  from property names to entries; the ids, which the application makes with
  \<^verbatim>\<open>crypto.randomUUID()\<close>, are taken to be ordinary property names.
\<close>

record PlaceToStay = PointOfInterest +
  averageDistance :: "number option"
  cumulativeDistance :: "number option"
  averageTime :: "number option"
  cumulativeTime :: "number option"
  distancesToPOIs :: "(string \<rightharpoonup> DistanceToPOI) option"

datatype DistanceCalculationMode = average | cumulative

datatype TransportProfile = walking | driving_traffic | cycling

section \<open>The routing matrix client\<close>

record MatrixRequest =
  profile :: TransportProfile
  annotations :: "string list"
  points :: "real list list"

record MatrixBody =
  distances :: "cell list list option"
  durations :: "cell list list option"

text \<open>
  What \<^verbatim>\<open>matrixClient.getMatrix(...).send()\<close> does is outside the repository: it either
  rejects, or resolves with a status code and a body.
\<close>

datatype response = Rejected | Resolved int MatrixBody

definition fetchMapBoxDirectionsMatrix ::
  "(MatrixRequest \<Rightarrow> response) \<Rightarrow> LatLon list \<Rightarrow> TransportProfile
    \<Rightarrow> MatrixRequest \<times> MatrixBody completion" where
  "fetchMapBoxDirectionsMatrix client locations prof =
     (let req = \<lparr>profile = prof,
                 annotations = [''duration'', ''distance''],
                 points = map (\<lambda>l. [lon l, lat l]) locations\<rparr>
      in (req,
          case client req of
            Rejected \<Rightarrow> Throws ClientRejected
          | Resolved statusCode body \<Rightarrow>
              if statusCode \<noteq> 200 then Throws (HTTPError statusCode) else Returns body))"

section \<open>calculateDistances\<close>

text \<open>
  The component state that \<^verbatim>\<open>calculateDistances\<close> reads and writes, with the two effects
  it has on the outside: the requests handed to the matrix client and the values passed
  to \<^verbatim>\<open>console.error\<close>, both oldest first.
\<close>

record App =
  pointsOfInterest :: "PointOfInterest list"
  placesToStay :: "PlaceToStay list"
  distanceMode :: DistanceCalculationMode
  transportProfile :: TransportProfile
  requests :: "MatrixRequest list"
  console :: "thrown list"

text \<open>
  \<^verbatim>\<open>row[j]\<close> is \<^verbatim>\<open>undefined\<close> past the end of the row. In \<^verbatim>\<open>m[i][j]\<close> a missing
  row makes the second subscript throw a TypeError.
\<close>

definition subscript :: "'a list \<Rightarrow> nat \<Rightarrow> 'a option" where
  "subscript row j = (if j < length row then Some (row ! j) else None)"

definition subscript2 :: "cell list list \<Rightarrow> nat \<Rightarrow> nat \<Rightarrow> cell option completion" where
  "subscript2 m i j =
     (if i < length m then Returns (subscript (m ! i) j) else Throws TypeError)"

text \<open>
  The two conversions of lines 365 and 366, \<^verbatim>\<open>(v / 1000) * 0.621371\<close> and
  \<^verbatim>\<open>v / 60\<close>, on the value read from the matrix. The literals 1000 and 60 are binary64
  values as they stand; the literal 0.621371 denotes the binary64 value it rounds to.
\<close>

definition to_miles :: "(real \<Rightarrow> real) \<Rightarrow> cell option \<Rightarrow> number" where
  "to_miles rnd v = num_mul rnd (num_div rnd (to_number v) (Fin 1000)) (Fin (rnd 0.621371))"

definition to_minutes :: "(real \<Rightarrow> real) \<Rightarrow> cell option \<Rightarrow> number" where
  "to_minutes rnd v = num_div rnd (to_number v) (Fin 60)"

text \<open>\<^verbatim>\<open>xs.forEach((x, index) => ...)\<close> over local variables \<open>s\<close>; a throw leaves the loop.\<close>

fun forEach :: "('a \<Rightarrow> nat \<Rightarrow> 's \<Rightarrow> 's completion) \<Rightarrow> 'a list \<Rightarrow> nat \<Rightarrow> 's \<Rightarrow> 's completion" where
  "forEach f [] k s = Returns s"
| "forEach f (x # xs) k s =
     (case f x k s of
        Throws e \<Rightarrow> Throws e
      | Returns s' \<Rightarrow> forEach f xs (Suc k) s')"

text \<open>\<^verbatim>\<open>xs.map((x, index) => ...)\<close> with a callback that may throw.\<close>

fun map_indexed :: "('a \<Rightarrow> nat \<Rightarrow> 'b completion) \<Rightarrow> 'a list \<Rightarrow> nat \<Rightarrow> 'b list completion" where
  "map_indexed f [] k = Returns []"
| "map_indexed f (x # xs) k =
     (case f x k of
        Throws e \<Rightarrow> Throws e
      | Returns y \<Rightarrow>
          (case map_indexed f xs (Suc k) of
             Throws e \<Rightarrow> Throws e
           | Returns ys \<Rightarrow> Returns (y # ys)))"

text \<open>
  The body of the inner \<^verbatim>\<open>forEach\<close> (lines 362 to 371); the locals are
  \<^verbatim>\<open>distancesToPOIs\<close>, \<^verbatim>\<open>totalDistance\<close> and \<^verbatim>\<open>totalTime\<close>.
\<close>

definition poi_step ::
  "(real \<Rightarrow> real) \<Rightarrow> cell list list \<Rightarrow> cell list list \<Rightarrow> nat \<Rightarrow> nat \<Rightarrow> PointOfInterest \<Rightarrow> nat
    \<Rightarrow> (string \<rightharpoonup> DistanceToPOI) \<times> number \<times> number
    \<Rightarrow> ((string \<rightharpoonup> DistanceToPOI) \<times> number \<times> number) completion" where
  "poi_step rnd ds ts placesToStayCount placeIndex poi poiIndex acc =
     (let matrixIndex = placesToStayCount + poiIndex in
      case subscript2 ds placeIndex matrixIndex of
        Throws e \<Rightarrow> Throws e
      | Returns d \<Rightarrow>
          let dist = to_miles rnd d in
          (case subscript2 ts placeIndex matrixIndex of
             Throws e \<Rightarrow> Throws e
           | Returns t \<Rightarrow>
               let dur = to_minutes rnd t in
               (case acc of (m, totalDistance, totalTime) \<Rightarrow>
                  Returns (m(id' poi \<mapsto> \<lparr>distance = dist, duration = dur\<rparr>),
                           num_add rnd totalDistance dist,
                           num_add rnd totalTime dur))))"

text \<open>The callback of the outer \<^verbatim>\<open>map\<close> (lines 355 to 381).\<close>

definition update_place ::
  "(real \<Rightarrow> real) \<Rightarrow> cell list list \<Rightarrow> cell list list \<Rightarrow> PointOfInterest list \<Rightarrow> nat \<Rightarrow> PlaceToStay \<Rightarrow> nat
    \<Rightarrow> PlaceToStay completion" where
  "update_place rnd ds ts pois placesToStayCount place placeIndex =
     (case forEach (poi_step rnd ds ts placesToStayCount placeIndex) pois 0
             (Map.empty, Fin 0, Fin 0) of
        Throws e \<Rightarrow> Throws e
      | Returns (m, totalDistance, totalTime) \<Rightarrow>
          Returns (place\<lparr>distancesToPOIs := Some m,
                         averageDistance := Some (num_div rnd totalDistance (Fin (real (length pois)))),
                         cumulativeDistance := Some totalDistance,
                         averageTime := Some (num_div rnd totalTime (Fin (real (length pois)))),
                         cumulativeTime := Some totalTime\<rparr>))"

text \<open>
  The part of the \<^verbatim>\<open>try\<close> block after the awaited fetch (lines 351 to 381):
  \<^verbatim>\<open>matrixResponse.distances || []\<close> replaces a missing matrix by the empty array
  (\<open>or_empty\<close>).
\<close>

definition or_empty :: "'a list option \<Rightarrow> 'a list" where
  "or_empty m = (case m of None \<Rightarrow> [] | Some xs \<Rightarrow> xs)"

definition updatedPlacesToStay ::
  "(real \<Rightarrow> real) \<Rightarrow> MatrixBody \<Rightarrow> PlaceToStay list \<Rightarrow> PointOfInterest list \<Rightarrow> PlaceToStay list completion" where
  "updatedPlacesToStay rnd matrixResponse places pois =
     (let ds = or_empty (distances matrixResponse);
          ts = or_empty (durations matrixResponse);
          placesToStayCount = length places
      in map_indexed (update_place rnd ds ts pois placesToStayCount) places 0)"

text \<open>
  The \<^verbatim>\<open>try\<close> block (lines 342 to 383) up to the call of \<^verbatim>\<open>setPlacesToStay\<close>: the
  request it sends and the list it would store, or what it throws.
\<close>

definition calculateDistances_try ::
  "(real \<Rightarrow> real) \<Rightarrow> (MatrixRequest \<Rightarrow> response) \<Rightarrow> App \<Rightarrow> MatrixRequest \<times> PlaceToStay list completion" where
  "calculateDistances_try rnd client st =
     (let allLocations =
            map (\<lambda>place. coordinates (location place)) (placesToStay st)
            @ map (\<lambda>poi. coordinates (location poi)) (pointsOfInterest st);
          (req, fetched) = fetchMapBoxDirectionsMatrix client allLocations (transportProfile st)
      in (req,
          case fetched of
            Throws e \<Rightarrow> Throws e
          | Returns matrixResponse \<Rightarrow>
              updatedPlacesToStay rnd matrixResponse (placesToStay st) (pointsOfInterest st)))"

text \<open>
  \<^verbatim>\<open>calculateDistances\<close> itself: the guard of line 339, the \<^verbatim>\<open>try\<close> block, and the
  \<^verbatim>\<open>catch\<close> of lines 384 to 386, which passes whatever was thrown to
  \<^verbatim>\<open>console.error\<close> and goes on. The result is how the returned promise settles.
\<close>

definition calculateDistances ::
  "(real \<Rightarrow> real) \<Rightarrow> (MatrixRequest \<Rightarrow> response) \<Rightarrow> App \<Rightarrow> App completion" where
  "calculateDistances rnd client st =
     (if length (placesToStay st) = 0 \<or> length (pointsOfInterest st) = 0 then Returns st
      else
        (case calculateDistances_try rnd client st of
           (req, Returns updated) \<Rightarrow>
             Returns (st\<lparr>placesToStay := updated, requests := requests st @ [req]\<rparr>)
         | (req, Throws e) \<Rightarrow>
             Returns (st\<lparr>requests := requests st @ [req], console := console st @ [e]\<rparr>)))"

section \<open>Sorting in PlacesToStayDisplay\<close>

text \<open>
  \<^verbatim>\<open>Array.prototype.sort\<close> with a comparator is part of the language: it is stable, and
  it orders \<open>a\<close> before \<open>b\<close> unless the comparator is positive on them. For a consistent
  comparator every conforming engine gives the same array; the insertion sort below is
  one of them.
\<close>

fun insert_by :: "('a \<Rightarrow> 'a \<Rightarrow> real) \<Rightarrow> 'a \<Rightarrow> 'a list \<Rightarrow> 'a list" where
  "insert_by cmp x [] = [x]"
| "insert_by cmp x (y # ys) =
     (if cmp x y \<le> 0 then x # y # ys else y # insert_by cmp x ys)"

definition array_sort :: "('a \<Rightarrow> 'a \<Rightarrow> real) \<Rightarrow> 'a list \<Rightarrow> 'a list" where
  "array_sort cmp xs = foldr (insert_by cmp) xs []"

text \<open>
  The comparator of lines 781 to 791 and the value it compares. The sort uses the
  difference through its sign only, and a binary64 difference of two finite numbers has
  the sign of their exact difference, so the exact difference stands for it.
\<close>

definition sort_distance :: "DistanceCalculationMode \<Rightarrow> PlaceToStay \<Rightarrow> real" where
  "sort_distance mode a =
     (if mode = average then or_zero (averageDistance a) else or_zero (cumulativeDistance a))"

definition compare_places :: "DistanceCalculationMode \<Rightarrow> PlaceToStay \<Rightarrow> PlaceToStay \<Rightarrow> real" where
  "compare_places mode a b =
     (let distanceA = sort_distance mode a; distanceB = sort_distance mode b
      in distanceA - distanceB)"

definition sortedPlacesToStay :: "DistanceCalculationMode \<Rightarrow> PlaceToStay list \<Rightarrow> PlaceToStay list" where
  "sortedPlacesToStay mode places = array_sort (compare_places mode) places"

text \<open>
  \<^verbatim>\<open>sort\<close> works in place and \<^verbatim>\<open>[...placesToStay]\<close> allocates a copy first. Arrays
  live in a store, addressed by position; allocation appends. A reference that the
  program holds is the position of an array that exists, so the statements below take
  it to be less than the length of the store.
\<close>

type_synonym 'a store = "'a list list"

definition spread :: "nat \<Rightarrow> 'a store \<Rightarrow> nat \<times> 'a store" where
  "spread r h = (length h, h @ [h ! r])"

definition sort_in_place :: "('a \<Rightarrow> 'a \<Rightarrow> real) \<Rightarrow> nat \<Rightarrow> 'a store \<Rightarrow> nat \<times> 'a store" where
  "sort_in_place cmp r h = (r, h[r := array_sort cmp (h ! r)])"

definition PlacesToStayDisplay_sort ::
  "DistanceCalculationMode \<Rightarrow> nat \<Rightarrow> PlaceToStay store \<Rightarrow> nat \<times> PlaceToStay store" where
  "PlacesToStayDisplay_sort mode placesToStay_ref h =
     (let (copy, h1) = spread placesToStay_ref h
      in sort_in_place (compare_places mode) copy h1)"

section \<open>Sums and comparisons of numbers\<close>

text \<open>
  The sum of a list of numbers as the loop accumulates it: from 0, left to right, each
  addition rounded.
\<close>

definition num_sum :: "(real \<Rightarrow> real) \<Rightarrow> number list \<Rightarrow> number" where
  "num_sum rnd xs = foldl (num_add rnd) (Fin 0) xs"

text \<open>
  The rounding that changes nothing. With it the model computes in the real numbers; the
  instances below are evaluated with it.
\<close>

definition exact :: "real \<Rightarrow> real" where
  "exact x = x"



section \<open>Example inputs\<close>

text \<open>
  The scenario of the specification: one place to stay and two points of interest, all at
  the origin, and a provider that answers every request with the same body.
\<close>

definition origin :: Location where
  "origin = \<lparr>coordinates = \<lparr>lat = 0, lon = 0\<rparr>, address = ''origin'', placeName = None\<rparr>"

definition anchor_A :: PlaceToStay where
  "anchor_A = \<lparr>id' = ''A'', name = ''A'', location = origin, note' = None, url = None,
      averageDistance = None, cumulativeDistance = None, averageTime = None,
      cumulativeTime = None, distancesToPOIs = None\<rparr>"

definition target_T1 :: PointOfInterest where
  "target_T1 = \<lparr>id' = ''T1'', name = ''T1'', location = origin, note' = None, url = None\<rparr>"

definition target_T2 :: PointOfInterest where
  "target_T2 = \<lparr>id' = ''T2'', name = ''T2'', location = origin, note' = None, url = None\<rparr>"

definition scenario_state :: App where
  "scenario_state = \<lparr>pointsOfInterest = [target_T1, target_T2], placesToStay = [anchor_A],
      distanceMode = average, transportProfile = walking, requests = [], console = []\<rparr>"

definition scenario_request :: MatrixRequest where
  "scenario_request = \<lparr>profile = walking, annotations = [''duration'', ''distance''],
      points = [[0, 0], [0, 0], [0, 0]]\<rparr>"

definition scenario_body :: MatrixBody where
  "scenario_body = \<lparr>distances = Some [[Num 0, Num 1000, Num 3000]],
      durations = Some [[Num 0, Num 60, Num 180]]\<rparr>"

definition scenario_client :: "MatrixRequest \<Rightarrow> response" where
  "scenario_client req = Resolved 200 scenario_body"

definition scenario_result :: PlaceToStay where
  "scenario_result = anchor_A\<lparr>
      distancesToPOIs := Some [''T1'' \<mapsto> \<lparr>distance = Fin 0.621371, duration = Fin 1\<rparr>,
                               ''T2'' \<mapsto> \<lparr>distance = Fin 1.864113, duration = Fin 3\<rparr>],
      averageDistance := Some (Fin 1.242742),
      cumulativeDistance := Some (Fin 2.485484),
      averageTime := Some (Fin 2),
      cumulativeTime := Some (Fin 4)\<rparr>"

text \<open>
  The same request answered with a duration of 120 seconds, with \<^verbatim>\<open>null\<close> cells for
  the first point of interest, with rows that end before the column of the second point
  of interest, with both points of interest at 1000 meters, and with status 500.
\<close>

definition conversion_body :: MatrixBody where
  "conversion_body = \<lparr>distances = Some [[Num 0, Num 1000, Num 3000]],
      durations = Some [[Num 0, Num 120, Num 180]]\<rparr>"

definition conversion_client :: "MatrixRequest \<Rightarrow> response" where
  "conversion_client req = Resolved 200 conversion_body"

definition conversion_result :: PlaceToStay where
  "conversion_result = anchor_A\<lparr>
      distancesToPOIs := Some [''T1'' \<mapsto> \<lparr>distance = Fin 0.621371, duration = Fin 2\<rparr>,
                               ''T2'' \<mapsto> \<lparr>distance = Fin 1.864113, duration = Fin 3\<rparr>],
      averageDistance := Some (Fin 1.242742),
      cumulativeDistance := Some (Fin 2.485484),
      averageTime := Some (Fin 2.5),
      cumulativeTime := Some (Fin 5)\<rparr>"

definition unreachable_body :: MatrixBody where
  "unreachable_body = \<lparr>distances = Some [[Num 0, Null, Num 1000]],
      durations = Some [[Num 0, Null, Num 60]]\<rparr>"

definition unreachable_client :: "MatrixRequest \<Rightarrow> response" where
  "unreachable_client req = Resolved 200 unreachable_body"

definition unreachable_result :: PlaceToStay where
  "unreachable_result = anchor_A\<lparr>
      distancesToPOIs := Some [''T1'' \<mapsto> \<lparr>distance = Fin 0, duration = Fin 0\<rparr>,
                               ''T2'' \<mapsto> \<lparr>distance = Fin 0.621371, duration = Fin 1\<rparr>],
      averageDistance := Some (Fin 0.3106855),
      cumulativeDistance := Some (Fin 0.621371),
      averageTime := Some (Fin 0.5),
      cumulativeTime := Some (Fin 1)\<rparr>"

definition short_row_body :: MatrixBody where
  "short_row_body = \<lparr>distances = Some [[Num 0, Num 1000]],
      durations = Some [[Num 0, Num 60]]\<rparr>"

definition short_row_client :: "MatrixRequest \<Rightarrow> response" where
  "short_row_client req = Resolved 200 short_row_body"





definition failing_client :: "MatrixRequest \<Rightarrow> response" where
  "failing_client req = Resolved 500 \<lparr>distances = None, durations = None\<rparr>"

text \<open>
  Places that carry derived fields from an earlier run, and a store holding one array
  of places.
\<close>

definition stale_A :: PlaceToStay where
  "stale_A = anchor_A\<lparr>
      distancesToPOIs := Some [''gone'' \<mapsto> \<lparr>distance = Fin 7, duration = Fin 70\<rparr>],
      averageDistance := Some (Fin 7),
      cumulativeDistance := Some (Fin 7),
      averageTime := Some (Fin 70),
      cumulativeTime := Some (Fin 70)\<rparr>"

definition anchor_near :: PlaceToStay where
  "anchor_near = anchor_A\<lparr>id' := ''near'', averageDistance := Some (Fin 1),
      cumulativeDistance := Some (Fin 2)\<rparr>"

definition anchor_far :: PlaceToStay where
  "anchor_far = anchor_A\<lparr>id' := ''far'', averageDistance := Some (Fin 3),
      cumulativeDistance := Some (Fin 6)\<rparr>"

definition display_store :: "PlaceToStay store" where
  "display_store = [[anchor_far, anchor_near, anchor_A]]"

section \<open>Unfolding the definitions\<close>

lemmas run_defs =
  calculateDistances_def calculateDistances_try_def fetchMapBoxDirectionsMatrix_def
  updatedPlacesToStay_def update_place_def poi_step_def subscript2_def subscript_def
  to_miles_def to_minutes_def or_empty_def exact_def Let_def

section \<open>Facts about numbers\<close>





section \<open>Facts about the sort\<close>

text \<open>
  The comparator is a difference of keys, so the sort is the library's stable insertion
  sort on that key.
\<close>

lemma insert_by_insort_key:
  "insert_by (\<lambda>a b. f a - f b) x ys = insort_key f x ys"
  by (induction ys) auto

lemma array_sort_sort_key:
  "array_sort (\<lambda>a b. f a - f b) xs = sort_key f xs"
  by (induction xs) (simp_all add: array_sort_def insert_by_insort_key)

lemma sortedPlacesToStay_sort_key:
  "sortedPlacesToStay mode xs = sort_key (sort_distance mode) xs"
  unfolding sortedPlacesToStay_def compare_places_def Let_def
  by (rule array_sort_sort_key)

section \<open>Facts about the two loops\<close>

lemma upt_shift_Cons: "[k..<Suc (k + n)] = k # [Suc k..<Suc (k + n)]"
  by (simp add: upt_conv_Cons)

text \<open>
  What the inner loop leaves in its three locals when both rows exist.
\<close>

lemma forEach_poi_step_rows:
  assumes "i < length ds" and "i < length ts"
  shows "\<exists>m'. forEach (poi_step rnd ds ts c i) pois k (m, td, tt)
           = Returns (m',
               foldl (num_add rnd) td (map (\<lambda>j. to_miles rnd (subscript (ds ! i) (c + j))) [k..<k + length pois]),
               foldl (num_add rnd) tt (map (\<lambda>j. to_minutes rnd (subscript (ts ! i) (c + j))) [k..<k + length pois]))
         \<and> dom m' = dom m \<union> id' ` set pois
         \<and> (\<forall>x. x \<notin> id' ` set pois \<longrightarrow> m' x = m x)
         \<and> (distinct (map id' pois) \<longrightarrow>
              (\<forall>j < length pois. m' (id' (pois ! j))
                 = Some \<lparr>distance = to_miles rnd (subscript (ds ! i) (c + (k + j))),
                         duration = to_minutes rnd (subscript (ts ! i) (c + (k + j)))\<rparr>))"
  using assms
proof (induction pois arbitrary: k m td tt)
  case Nil
  then show ?case by simp
next
  case (Cons p ps)
  let ?e = "\<lparr>distance = to_miles rnd (subscript (ds ! i) (c + k)),
             duration = to_minutes rnd (subscript (ts ! i) (c + k))\<rparr>"
  let ?m1 = "m(id' p \<mapsto> ?e)"
  let ?td1 = "num_add rnd td (to_miles rnd (subscript (ds ! i) (c + k)))"
  let ?tt1 = "num_add rnd tt (to_minutes rnd (subscript (ts ! i) (c + k)))"
  have step: "poi_step rnd ds ts c i p k (m, td, tt) = Returns (?m1, ?td1, ?tt1)"
    using Cons.prems by (simp add: poi_step_def subscript2_def Let_def)
  from Cons.IH[OF Cons.prems, of "Suc k" ?m1 ?td1 ?tt1]
  obtain m' where run: "forEach (poi_step rnd ds ts c i) ps (Suc k) (?m1, ?td1, ?tt1)
           = Returns (m',
               foldl (num_add rnd) ?td1 (map (\<lambda>j. to_miles rnd (subscript (ds ! i) (c + j))) [Suc k..<Suc k + length ps]),
               foldl (num_add rnd) ?tt1 (map (\<lambda>j. to_minutes rnd (subscript (ts ! i) (c + j))) [Suc k..<Suc k + length ps]))"
    and keys: "dom m' = dom ?m1 \<union> id' ` set ps"
    and frame: "\<forall>x. x \<notin> id' ` set ps \<longrightarrow> m' x = ?m1 x"
    and entries: "distinct (map id' ps) \<longrightarrow>
              (\<forall>j < length ps. m' (id' (ps ! j))
                 = Some \<lparr>distance = to_miles rnd (subscript (ds ! i) (c + (Suc k + j))),
                         duration = to_minutes rnd (subscript (ts ! i) (c + (Suc k + j)))\<rparr>)"
    by blast
  have r1: "forEach (poi_step rnd ds ts c i) (p # ps) k (m, td, tt)
           = Returns (m',
               foldl (num_add rnd) td (map (\<lambda>j. to_miles rnd (subscript (ds ! i) (c + j))) [k..<k + length (p # ps)]),
               foldl (num_add rnd) tt (map (\<lambda>j. to_minutes rnd (subscript (ts ! i) (c + j))) [k..<k + length (p # ps)]))"
    using step run by (simp add: upt_shift_Cons del: upt_Suc)
  have r2: "dom m' = dom m \<union> id' ` set (p # ps)"
    using keys by auto
  have r3: "\<forall>x. x \<notin> id' ` set (p # ps) \<longrightarrow> m' x = m x"
    using frame by auto
  have r4: "distinct (map id' (p # ps)) \<longrightarrow>
              (\<forall>j < length (p # ps). m' (id' ((p # ps) ! j))
                 = Some \<lparr>distance = to_miles rnd (subscript (ds ! i) (c + (k + j))),
                         duration = to_minutes rnd (subscript (ts ! i) (c + (k + j)))\<rparr>)"
  proof (intro impI allI)
    fix j
    assume d: "distinct (map id' (p # ps))" and j: "j < length (p # ps)"
    show "m' (id' ((p # ps) ! j))
                 = Some \<lparr>distance = to_miles rnd (subscript (ds ! i) (c + (k + j))),
                         duration = to_minutes rnd (subscript (ts ! i) (c + (k + j)))\<rparr>"
    proof (cases j)
      case 0
      from d have "id' p \<notin> id' ` set ps" by simp
      with frame have "m' (id' p) = ?m1 (id' p)" by blast
      with 0 show ?thesis by simp
    next
      case (Suc j')
      with j d entries show ?thesis by simp
    qed
  qed
  from r1 r2 r3 r4 show ?case by blast
qed

text \<open>
  With at least one point of interest, the inner loop can only return when both rows exist.
\<close>

lemma forEach_poi_step_returns:
  assumes "forEach (poi_step rnd ds ts c i) pois k acc = Returns r" and "pois \<noteq> []"
  shows "i < length ds \<and> i < length ts"
proof -
  from assms(2) obtain p ps where "pois = p # ps" by (cases pois) auto
  with assms(1) have "\<exists>s. poi_step rnd ds ts c i p k acc = Returns s"
    by (auto split: completion.splits)
  then show ?thesis
    by (auto simp: poi_step_def subscript2_def Let_def split: if_splits completion.splits)
qed

lemma map_indexed_returns:
  assumes "map_indexed f xs k = Returns ys"
  shows "length ys = length xs \<and> (\<forall>i < length xs. f (xs ! i) (k + i) = Returns (ys ! i))"
  using assms
proof (induction xs arbitrary: k ys)
  case Nil
  then show ?case by simp
next
  case (Cons x xs)
  from Cons.prems obtain y ys' where
    hd: "f x k = Returns y" and tl: "map_indexed f xs (Suc k) = Returns ys'" and ys: "ys = y # ys'"
    by (auto split: completion.splits)
  from Cons.IH[OF tl] have len: "length ys' = length xs"
    and rest: "\<forall>i < length xs. f (xs ! i) (Suc k + i) = Returns (ys' ! i)" by simp_all
  have "\<forall>i < length (x # xs). f ((x # xs) ! i) (k + i) = Returns (ys ! i)"
  proof (intro allI impI)
    fix i assume "i < length (x # xs)"
    then show "f ((x # xs) ! i) (k + i) = Returns (ys ! i)"
      using hd rest ys by (cases i) simp_all
  qed
  with len ys show ?case by simp
qed

lemma map_indexed_all_return:
  assumes "\<forall>i < length xs. \<exists>y. f (xs ! i) (k + i) = Returns y"
  shows "\<exists>ys. map_indexed f xs k = Returns ys"
  using assms
proof (induction xs arbitrary: k)
  case Nil
  then show ?case by simp
next
  case (Cons x xs)
  from Cons.prems have "\<exists>y. f ((x # xs) ! 0) (k + 0) = Returns y" by blast
  then obtain y where hd: "f x k = Returns y" by auto
  have "\<forall>i < length xs. \<exists>y. f (xs ! i) (Suc k + i) = Returns y"
  proof (intro allI impI)
    fix i assume "i < length xs"
    then have "Suc i < length (x # xs)" by simp
    with Cons.prems have "\<exists>y. f ((x # xs) ! Suc i) (k + Suc i) = Returns y" by blast
    then show "\<exists>y. f (xs ! i) (Suc k + i) = Returns y" by simp
  qed
  from Cons.IH[OF this] obtain ys where "map_indexed f xs (Suc k) = Returns ys" by blast
  with hd show ?case by simp
qed

lemma map_indexed_map:
  "map_indexed f (map g xs) k = map_indexed (\<lambda>x. f (g x)) xs k"
  by (induction xs arbitrary: k) (simp_all split: completion.splits)

text \<open>
  The place that the callback of the outer map returns when both rows exist.
\<close>

lemma update_place_rows:
  assumes "i < length ds" and "i < length ts"
  shows "\<exists>m'. update_place rnd ds ts pois c place i
           = Returns (place\<lparr>distancesToPOIs := Some m',
                 averageDistance := Some (num_div rnd
                   (num_sum rnd (map (\<lambda>j. to_miles rnd (subscript (ds ! i) (c + j))) [0..<length pois]))
                   (Fin (real (length pois)))),
                 cumulativeDistance := Some
                   (num_sum rnd (map (\<lambda>j. to_miles rnd (subscript (ds ! i) (c + j))) [0..<length pois])),
                 averageTime := Some (num_div rnd
                   (num_sum rnd (map (\<lambda>j. to_minutes rnd (subscript (ts ! i) (c + j))) [0..<length pois]))
                   (Fin (real (length pois)))),
                 cumulativeTime := Some
                   (num_sum rnd (map (\<lambda>j. to_minutes rnd (subscript (ts ! i) (c + j))) [0..<length pois]))\<rparr>)
         \<and> dom m' = id' ` set pois
         \<and> (distinct (map id' pois) \<longrightarrow>
              (\<forall>j < length pois. m' (id' (pois ! j))
                 = Some \<lparr>distance = to_miles rnd (subscript (ds ! i) (c + j)),
                         duration = to_minutes rnd (subscript (ts ! i) (c + j))\<rparr>))"
proof -
  from forEach_poi_step_rows[OF assms, of rnd c pois 0 Map.empty "Fin 0" "Fin 0"]
  obtain m' where run: "forEach (poi_step rnd ds ts c i) pois 0 (Map.empty, Fin 0, Fin 0)
           = Returns (m',
               foldl (num_add rnd) (Fin 0) (map (\<lambda>j. to_miles rnd (subscript (ds ! i) (c + j))) [0..<0 + length pois]),
               foldl (num_add rnd) (Fin 0) (map (\<lambda>j. to_minutes rnd (subscript (ts ! i) (c + j))) [0..<0 + length pois]))"
    and keys: "dom m' = dom (Map.empty :: string \<rightharpoonup> DistanceToPOI) \<union> id' ` set pois"
    and entries: "distinct (map id' pois) \<longrightarrow>
              (\<forall>j < length pois. m' (id' (pois ! j))
                 = Some \<lparr>distance = to_miles rnd (subscript (ds ! i) (c + (0 + j))),
                         duration = to_minutes rnd (subscript (ts ! i) (c + (0 + j)))\<rparr>)"
    by blast
  from run have "update_place rnd ds ts pois c place i
           = Returns (place\<lparr>distancesToPOIs := Some m',
                 averageDistance := Some (num_div rnd
                   (num_sum rnd (map (\<lambda>j. to_miles rnd (subscript (ds ! i) (c + j))) [0..<length pois]))
                   (Fin (real (length pois)))),
                 cumulativeDistance := Some
                   (num_sum rnd (map (\<lambda>j. to_miles rnd (subscript (ds ! i) (c + j))) [0..<length pois])),
                 averageTime := Some (num_div rnd
                   (num_sum rnd (map (\<lambda>j. to_minutes rnd (subscript (ts ! i) (c + j))) [0..<length pois]))
                   (Fin (real (length pois)))),
                 cumulativeTime := Some
                   (num_sum rnd (map (\<lambda>j. to_minutes rnd (subscript (ts ! i) (c + j))) [0..<length pois]))\<rparr>)"
    by (simp add: update_place_def num_sum_def)
  moreover from keys have "dom m' = id' ` set pois" by simp
  moreover from entries have "distinct (map id' pois) \<longrightarrow>
              (\<forall>j < length pois. m' (id' (pois ! j))
                 = Some \<lparr>distance = to_miles rnd (subscript (ds ! i) (c + j)),
                         duration = to_minutes rnd (subscript (ts ! i) (c + j))\<rparr>)" by simp
  ultimately show ?thesis by blast
qed

lemma update_place_returns:
  assumes "update_place rnd ds ts pois c place i = Returns p'" and "pois \<noteq> []"
  shows "i < length ds \<and> i < length ts"
proof -
  from assms(1) obtain r where "forEach (poi_step rnd ds ts c i) pois 0 (Map.empty, Fin 0, Fin 0) = Returns r"
    by (auto simp: update_place_def split: completion.splits)
  from forEach_poi_step_returns[OF this assms(2)] show ?thesis .
qed

lemma update_place_ignores_derived:
  "update_place rnd ds ts pois c
     (p\<lparr>averageDistance := a, cumulativeDistance := b, averageTime := t,
        cumulativeTime := u, distancesToPOIs := d\<rparr>)
   = update_place rnd ds ts pois c p"
  by (rule ext) (simp add: update_place_def split: completion.splits prod.splits)

lemma updatedPlacesToStay_ignores_derived:
  "updatedPlacesToStay rnd body
     (map (\<lambda>p. p\<lparr>averageDistance := a p, cumulativeDistance := b p, averageTime := t p,
                 cumulativeTime := u p, distancesToPOIs := d p\<rparr>) places) pois
   = updatedPlacesToStay rnd body places pois"
  by (simp add: updatedPlacesToStay_def Let_def map_indexed_map update_place_ignores_derived)

section \<open>Facts about the try block\<close>

text \<open>
  The request depends on the coordinates and the profile only.
\<close>

lemma try_request:
  "fst (calculateDistances_try rnd client st)
     = \<lparr>profile = transportProfile st,
        annotations = [''duration'', ''distance''],
        points = map (\<lambda>p. [lon (coordinates (location p)), lat (coordinates (location p))])
                   (placesToStay st)
                 @ map (\<lambda>p. [lon (coordinates (location p)), lat (coordinates (location p))])
                   (pointsOfInterest st)\<rparr>"
  by (simp add: calculateDistances_try_def fetchMapBoxDirectionsMatrix_def Let_def)

lemma try_unfold:
  "snd (calculateDistances_try rnd client st)
     = (case client (fst (calculateDistances_try rnd client st)) of
          Rejected \<Rightarrow> Throws ClientRejected
        | Resolved statusCode body \<Rightarrow>
            if statusCode \<noteq> 200 then Throws (HTTPError statusCode)
            else map_indexed
                   (update_place rnd (or_empty (distances body)) (or_empty (durations body))
                      (pointsOfInterest st) (length (placesToStay st)))
                   (placesToStay st) 0)"
  by (simp add: calculateDistances_try_def fetchMapBoxDirectionsMatrix_def Let_def
      updatedPlacesToStay_def split: response.splits)

lemma try_ignores_derived:
  "calculateDistances_try rnd client
     (st\<lparr>placesToStay :=
           map (\<lambda>p. p\<lparr>averageDistance := a p, cumulativeDistance := b p, averageTime := t p,
                       cumulativeTime := u p, distancesToPOIs := d p\<rparr>) (placesToStay st)\<rparr>)
   = calculateDistances_try rnd client st"
  by (simp add: calculateDistances_try_def fetchMapBoxDirectionsMatrix_def
      Let_def o_def updatedPlacesToStay_ignores_derived cong: completion.case_cong)

text \<open>
  What a returning try block tells about the response and about every place.
\<close>

lemma try_returns:
  assumes "snd (calculateDistances_try rnd client st) = Returns updated"
    and "pointsOfInterest st \<noteq> []"
  shows "\<exists>body. client (fst (calculateDistances_try rnd client st)) = Resolved 200 body
           \<and> length updated = length (placesToStay st)
           \<and> (\<forall>i < length (placesToStay st).
                 i < length (or_empty (distances body)) \<and> i < length (or_empty (durations body))
                 \<and> update_place rnd (or_empty (distances body)) (or_empty (durations body))
                      (pointsOfInterest st) (length (placesToStay st)) (placesToStay st ! i) i
                    = Returns (updated ! i))"
proof -
  from assms(1) obtain body where
    resp: "client (fst (calculateDistances_try rnd client st)) = Resolved 200 body"
    and run: "map_indexed
                   (update_place rnd (or_empty (distances body)) (or_empty (durations body))
                      (pointsOfInterest st) (length (placesToStay st)))
                   (placesToStay st) 0 = Returns updated"
    unfolding try_unfold
    by (cases "client (fst (calculateDistances_try rnd client st))") (auto split: if_splits)
  from map_indexed_returns[OF run] have len: "length updated = length (placesToStay st)"
    and each: "\<forall>i < length (placesToStay st).
                 update_place rnd (or_empty (distances body)) (or_empty (durations body))
                      (pointsOfInterest st) (length (placesToStay st)) (placesToStay st ! i) (0 + i)
                    = Returns (updated ! i)"
    by simp_all
  have "\<forall>i < length (placesToStay st).
                 i < length (or_empty (distances body)) \<and> i < length (or_empty (durations body))
                 \<and> update_place rnd (or_empty (distances body)) (or_empty (durations body))
                      (pointsOfInterest st) (length (placesToStay st)) (placesToStay st ! i) i
                    = Returns (updated ! i)"
  proof (intro allI impI)
    fix i assume "i < length (placesToStay st)"
    with each have u: "update_place rnd (or_empty (distances body)) (or_empty (durations body))
                      (pointsOfInterest st) (length (placesToStay st)) (placesToStay st ! i) i
                    = Returns (updated ! i)" by simp
    from update_place_returns[OF u assms(2)] u
    show "i < length (or_empty (distances body)) \<and> i < length (or_empty (durations body))
                 \<and> update_place rnd (or_empty (distances body)) (or_empty (durations body))
                      (pointsOfInterest st) (length (placesToStay st)) (placesToStay st ! i) i
                    = Returns (updated ! i)" by simp
  qed
  with resp len show ?thesis by (intro exI[of _ body]) simp
qed

text \<open>
  A response with status 200 and a row for every place makes the try block return.
\<close>

lemma try_rows_return:
  assumes "client (fst (calculateDistances_try rnd client st)) = Resolved 200 body"
    and "length (placesToStay st) \<le> length (or_empty (distances body))"
    and "length (placesToStay st) \<le> length (or_empty (durations body))"
  shows "\<exists>updated. snd (calculateDistances_try rnd client st) = Returns updated"
proof -
  have "\<forall>i < length (placesToStay st). \<exists>y.
          update_place rnd (or_empty (distances body)) (or_empty (durations body))
            (pointsOfInterest st) (length (placesToStay st)) (placesToStay st ! i) (0 + i) = Returns y"
  proof (intro allI impI)
    fix i assume "i < length (placesToStay st)"
    with assms(2,3) have "i < length (or_empty (distances body))" "i < length (or_empty (durations body))"
      by simp_all
    from update_place_rows[OF this, of rnd "pointsOfInterest st" "length (placesToStay st)" "placesToStay st ! i"]
    obtain y where "update_place rnd (or_empty (distances body)) (or_empty (durations body))
            (pointsOfInterest st) (length (placesToStay st)) (placesToStay st ! i) i = Returns y"
      by blast
    then show "\<exists>y. update_place rnd (or_empty (distances body)) (or_empty (durations body))
            (pointsOfInterest st) (length (placesToStay st)) (placesToStay st ! i) (0 + i) = Returns y"
      by simp
  qed
  from map_indexed_all_return[OF this] assms(1) show ?thesis
    unfolding try_unfold by simp
qed

lemma try_place:
  assumes "snd (calculateDistances_try rnd client st) = Returns updated"
    and "pointsOfInterest st \<noteq> []"
    and "i < length (placesToStay st)"
  shows "\<exists>body m.
      client (fst (calculateDistances_try rnd client st)) = Resolved 200 body
    \<and> i < length (or_empty (distances body)) \<and> i < length (or_empty (durations body))
    \<and> updated ! i = (placesToStay st ! i)\<lparr>distancesToPOIs := Some m,
          averageDistance := Some (num_div rnd
            (num_sum rnd (map (\<lambda>j. to_miles rnd (subscript (or_empty (distances body) ! i)
                                    (length (placesToStay st) + j)))
                       [0..<length (pointsOfInterest st)]))
            (Fin (real (length (pointsOfInterest st))))),
          cumulativeDistance := Some
            (num_sum rnd (map (\<lambda>j. to_miles rnd (subscript (or_empty (distances body) ! i)
                                    (length (placesToStay st) + j)))
                       [0..<length (pointsOfInterest st)])),
          averageTime := Some (num_div rnd
            (num_sum rnd (map (\<lambda>j. to_minutes rnd (subscript (or_empty (durations body) ! i)
                                    (length (placesToStay st) + j)))
                       [0..<length (pointsOfInterest st)]))
            (Fin (real (length (pointsOfInterest st))))),
          cumulativeTime := Some
            (num_sum rnd (map (\<lambda>j. to_minutes rnd (subscript (or_empty (durations body) ! i)
                                    (length (placesToStay st) + j)))
                       [0..<length (pointsOfInterest st)]))\<rparr>
    \<and> dom m = id' ` set (pointsOfInterest st)
    \<and> (distinct (map id' (pointsOfInterest st)) \<longrightarrow>
          (\<forall>j < length (pointsOfInterest st). m (id' (pointsOfInterest st ! j))
             = Some \<lparr>distance = to_miles rnd (subscript (or_empty (distances body) ! i)
                                    (length (placesToStay st) + j)),
                     duration = to_minutes rnd (subscript (or_empty (durations body) ! i)
                                    (length (placesToStay st) + j))\<rparr>))"
proof -
  from try_returns[OF assms(1,2)] assms(3) obtain body where
    resp: "client (fst (calculateDistances_try rnd client st)) = Resolved 200 body"
    and rd: "i < length (or_empty (distances body))"
    and rt: "i < length (or_empty (durations body))"
    and up: "update_place rnd (or_empty (distances body)) (or_empty (durations body))
               (pointsOfInterest st) (length (placesToStay st)) (placesToStay st ! i) i
             = Returns (updated ! i)"
    by blast
  from update_place_rows[OF rd rt, of rnd "pointsOfInterest st" "length (placesToStay st)"
      "placesToStay st ! i"] up resp rd rt
  show ?thesis by (elim exE conjE) (intro exI conjI; simp)
qed

lemma try_entries:
  assumes "calculateDistances_try rnd client st = (req, Returns updated)"
    and "pointsOfInterest st \<noteq> []"
    and "i < length (placesToStay st)"
  shows "\<exists>body m.
      client req = Resolved 200 body
    \<and> distancesToPOIs (updated ! i) = Some m
    \<and> dom m = id' ` set (pointsOfInterest st)
    \<and> (distinct (map id' (pointsOfInterest st)) \<longrightarrow>
          (\<forall>j < length (pointsOfInterest st). m (id' (pointsOfInterest st ! j))
             = Some \<lparr>distance = to_miles rnd (subscript (or_empty (distances body) ! i)
                                    (length (placesToStay st) + j)),
                     duration = to_minutes rnd (subscript (or_empty (durations body) ! i)
                                    (length (placesToStay st) + j))\<rparr>))"
proof -
  from assms(1) have req: "fst (calculateDistances_try rnd client st) = req"
    and ret: "snd (calculateDistances_try rnd client st) = Returns updated" by simp_all
  from try_place[OF ret assms(2,3)] show ?thesis
    unfolding req by (elim exE conjE) (intro exI conjI; simp)
qed

lemma try_totals:
  assumes "calculateDistances_try rnd client st = (req, Returns updated)"
    and "pointsOfInterest st \<noteq> []"
    and "i < length (placesToStay st)"
  shows "\<exists>body.
      client req = Resolved 200 body
    \<and> cumulativeDistance (updated ! i) = Some
          (num_sum rnd (map (\<lambda>j. to_miles rnd (subscript (or_empty (distances body) ! i)
                                  (length (placesToStay st) + j)))
                     [0..<length (pointsOfInterest st)]))
    \<and> cumulativeTime (updated ! i) = Some
          (num_sum rnd (map (\<lambda>j. to_minutes rnd (subscript (or_empty (durations body) ! i)
                                  (length (placesToStay st) + j)))
                     [0..<length (pointsOfInterest st)]))
    \<and> averageDistance (updated ! i) = Some (num_div rnd
          (num_sum rnd (map (\<lambda>j. to_miles rnd (subscript (or_empty (distances body) ! i)
                                  (length (placesToStay st) + j)))
                     [0..<length (pointsOfInterest st)]))
          (Fin (real (length (pointsOfInterest st)))))
    \<and> averageTime (updated ! i) = Some (num_div rnd
          (num_sum rnd (map (\<lambda>j. to_minutes rnd (subscript (or_empty (durations body) ! i)
                                  (length (placesToStay st) + j)))
                     [0..<length (pointsOfInterest st)]))
          (Fin (real (length (pointsOfInterest st)))))"
proof -
  from assms(1) have req: "fst (calculateDistances_try rnd client st) = req"
    and ret: "snd (calculateDistances_try rnd client st) = Returns updated" by simp_all
  from try_place[OF ret assms(2,3)] show ?thesis
    unfolding req by (elim exE conjE) (intro exI conjI; simp)
qed

lemma calculateDistances_returns:
  assumes "calculateDistances_try rnd client st = (req, Returns updated)"
    and "placesToStay st \<noteq> []" and "pointsOfInterest st \<noteq> []"
  shows "calculateDistances rnd client st
           = Returns (st\<lparr>placesToStay := updated, requests := requests st @ [req]\<rparr>)"
  using assms by (simp add: calculateDistances_def)

section \<open>Aggregation\<close>

text \<open>
  C1, as the code has it. The claim asks for a failure of the whole aggregation when a
  cell is unreachable. The code has no check on the cells: with status 200 and a row for
  every place the aggregation succeeds and is stored whatever the cells hold. A
  \<^verbatim>\<open>null\<close> cell is converted as the number 0 is, and a cell missing from its row is
  converted to NaN; the converted values make up the place's two sums and, the ids of the
  points of interest being distinct, the entry of the pair. Rounding 0 gives 0, so the
  conversion of \<^verbatim>\<open>null\<close> is 0. No point of interest is dropped: the keys of
  \<^verbatim>\<open>distancesToPOIs\<close> are the ids of all of them.
\<close>

theorem unreachable_cell_policy:
  assumes "client (fst (calculateDistances_try rnd client st)) = Resolved 200 body"
    and "length (placesToStay st) \<le> length (or_empty (distances body))"
    and "length (placesToStay st) \<le> length (or_empty (durations body))"
    and "i < length (placesToStay st)"
    and "j < length (pointsOfInterest st)"
  shows "\<exists>updated m.
      calculateDistances rnd client st
        = Returns (st\<lparr>placesToStay := updated,
                      requests := requests st @ [fst (calculateDistances_try rnd client st)]\<rparr>)
    \<and> distancesToPOIs (updated ! i) = Some m
    \<and> dom m = id' ` set (pointsOfInterest st)
    \<and> cumulativeDistance (updated ! i) = Some
          (num_sum rnd (map (\<lambda>j. to_miles rnd (subscript (or_empty (distances body) ! i)
                                      (length (placesToStay st) + j)))
                         [0..<length (pointsOfInterest st)]))
    \<and> cumulativeTime (updated ! i) = Some
          (num_sum rnd (map (\<lambda>j. to_minutes rnd (subscript (or_empty (durations body) ! i)
                                      (length (placesToStay st) + j)))
                         [0..<length (pointsOfInterest st)]))
    \<and> (distinct (map id' (pointsOfInterest st)) \<longrightarrow>
          m (id' (pointsOfInterest st ! j))
            = Some \<lparr>distance = to_miles rnd (subscript (or_empty (distances body) ! i)
                                   (length (placesToStay st) + j)),
                    duration = to_minutes rnd (subscript (or_empty (durations body) ! i)
                                   (length (placesToStay st) + j))\<rparr>)
    \<and> to_miles rnd (Some Null) = to_miles rnd (Some (Num 0))
    \<and> to_minutes rnd (Some Null) = to_minutes rnd (Some (Num 0))
    \<and> (rnd 0 = 0 \<longrightarrow> to_miles rnd (Some Null) = Fin 0 \<and> to_minutes rnd (Some Null) = Fin 0)
    \<and> to_miles rnd None = NaN
    \<and> to_minutes rnd None = NaN"
proof -
  let ?req = "fst (calculateDistances_try rnd client st)"
  from assms(4,5) have ne: "placesToStay st \<noteq> []" "pointsOfInterest st \<noteq> []" by auto
  from try_rows_return[where client = client and st = st, OF assms(1,2,3)] obtain updated where
    "snd (calculateDistances_try rnd client st) = Returns updated" by blast
  then have tr: "calculateDistances_try rnd client st = (?req, Returns updated)"
    by (simp add: prod_eq_iff)
  have run: "calculateDistances rnd client st
        = Returns (st\<lparr>placesToStay := updated, requests := requests st @ [?req]\<rparr>)"
    by (rule calculateDistances_returns[OF tr ne])
  from try_entries[OF tr ne(2) assms(4)] assms(1,5) obtain m where
    m: "distancesToPOIs (updated ! i) = Some m"
    and keys: "dom m = id' ` set (pointsOfInterest st)"
    and entry: "distinct (map id' (pointsOfInterest st)) \<longrightarrow>
          m (id' (pointsOfInterest st ! j))
            = Some \<lparr>distance = to_miles rnd (subscript (or_empty (distances body) ! i)
                                   (length (placesToStay st) + j)),
                    duration = to_minutes rnd (subscript (or_empty (durations body) ! i)
                                   (length (placesToStay st) + j))\<rparr>"
    by auto
  from try_totals[OF tr ne(2) assms(4)] assms(1) have
    sums: "cumulativeDistance (updated ! i) = Some
          (num_sum rnd (map (\<lambda>j. to_miles rnd (subscript (or_empty (distances body) ! i)
                                      (length (placesToStay st) + j)))
                         [0..<length (pointsOfInterest st)]))"
      "cumulativeTime (updated ! i) = Some
          (num_sum rnd (map (\<lambda>j. to_minutes rnd (subscript (or_empty (durations body) ! i)
                                      (length (placesToStay st) + j)))
                         [0..<length (pointsOfInterest st)]))"
    by auto
  have conv: "to_miles rnd (Some Null) = to_miles rnd (Some (Num 0))"
    "to_minutes rnd (Some Null) = to_minutes rnd (Some (Num 0))"
    "rnd 0 = 0 \<longrightarrow> to_miles rnd (Some Null) = Fin 0 \<and> to_minutes rnd (Some Null) = Fin 0"
    "to_miles rnd None = NaN" "to_minutes rnd None = NaN"
    by (simp_all add: to_miles_def to_minutes_def)
  from run m keys entry sums conv show ?thesis
    by (intro exI[of _ updated] exI[of _ m] conjI)
qed

text \<open>
  C1, two instances, in exact arithmetic: the cells of the first point of interest are
  \<^verbatim>\<open>null\<close>, and the cells of the second point of interest are missing from the row.
\<close>

theorem unreachable_cell_policy_witness:
  "unreachable_client (fst (calculateDistances_try exact unreachable_client scenario_state))
     = Resolved 200 unreachable_body
   \<and> length (placesToStay scenario_state) \<le> length (or_empty (distances unreachable_body))
   \<and> length (placesToStay scenario_state) \<le> length (or_empty (durations unreachable_body))
   \<and> 0 < length (placesToStay scenario_state)
   \<and> 0 < length (pointsOfInterest scenario_state)
   \<and> distinct (map id' (pointsOfInterest scenario_state))
   \<and> exact 0 = 0
   \<and> subscript (or_empty (distances unreachable_body) ! 0)
        (length (placesToStay scenario_state) + 0) = Some Null
   \<and> subscript (or_empty (durations unreachable_body) ! 0)
        (length (placesToStay scenario_state) + 0) = Some Null
   \<and> (\<exists>updated m.
        calculateDistances exact unreachable_client scenario_state
          = Returns (scenario_state\<lparr>placesToStay := updated, requests := [scenario_request]\<rparr>)
      \<and> distancesToPOIs (updated ! 0) = Some m
      \<and> dom m = {''T1'', ''T2''}
      \<and> m ''T1'' = Some \<lparr>distance = Fin 0, duration = Fin 0\<rparr>
      \<and> cumulativeDistance (updated ! 0) = Some (Fin 0.621371)
      \<and> cumulativeTime (updated ! 0) = Some (Fin 1))
   \<and> short_row_client (fst (calculateDistances_try exact short_row_client scenario_state))
        = Resolved 200 short_row_body
   \<and> length (placesToStay scenario_state) \<le> length (or_empty (distances short_row_body))
   \<and> length (placesToStay scenario_state) \<le> length (or_empty (durations short_row_body))
   \<and> 1 < length (pointsOfInterest scenario_state)
   \<and> subscript (or_empty (distances short_row_body) ! 0)
        (length (placesToStay scenario_state) + 1) = None
   \<and> subscript (or_empty (durations short_row_body) ! 0)
        (length (placesToStay scenario_state) + 1) = None
   \<and> (\<exists>updated m.
        calculateDistances exact short_row_client scenario_state
          = Returns (scenario_state\<lparr>placesToStay := updated, requests := [scenario_request]\<rparr>)
      \<and> distancesToPOIs (updated ! 0) = Some m
      \<and> dom m = {''T1'', ''T2''}
      \<and> m ''T2'' = Some \<lparr>distance = NaN, duration = NaN\<rparr>
      \<and> cumulativeDistance (updated ! 0) = Some NaN
      \<and> cumulativeTime (updated ! 0) = Some NaN)"
proof -
  have h1: "unreachable_client (fst (calculateDistances_try exact unreachable_client scenario_state))
              = Resolved 200 unreachable_body"
    by (simp add: unreachable_client_def)
  have h2: "length (placesToStay scenario_state) \<le> length (or_empty (distances unreachable_body))"
    and h3: "length (placesToStay scenario_state) \<le> length (or_empty (durations unreachable_body))"
    and h4: "0 < length (placesToStay scenario_state)"
    and h5: "0 < length (pointsOfInterest scenario_state)"
    and h6: "distinct (map id' (pointsOfInterest scenario_state))"
    and h7: "exact 0 = 0"
    by (simp_all add: scenario_state_def target_T1_def target_T2_def unreachable_body_def
        or_empty_def exact_def)
  have c1: "subscript (or_empty (distances unreachable_body) ! 0)
              (length (placesToStay scenario_state) + 0) = Some Null"
    and c2: "subscript (or_empty (durations unreachable_body) ! 0)
              (length (placesToStay scenario_state) + 0) = Some Null"
    by (simp_all add: scenario_state_def unreachable_body_def subscript_def or_empty_def)
  have g1: "short_row_client (fst (calculateDistances_try exact short_row_client scenario_state))
              = Resolved 200 short_row_body"
    by (simp add: short_row_client_def)
  have g2: "length (placesToStay scenario_state) \<le> length (or_empty (distances short_row_body))"
    and g3: "length (placesToStay scenario_state) \<le> length (or_empty (durations short_row_body))"
    and g5: "1 < length (pointsOfInterest scenario_state)"
    by (simp_all add: scenario_state_def short_row_body_def or_empty_def)
  have d1: "subscript (or_empty (distances short_row_body) ! 0)
              (length (placesToStay scenario_state) + 1) = None"
    and d2: "subscript (or_empty (durations short_row_body) ! 0)
              (length (placesToStay scenario_state) + 1) = None"
    by (simp_all add: scenario_state_def short_row_body_def subscript_def or_empty_def)
  have rq: "fst (calculateDistances_try exact client scenario_state) = scenario_request" for client
    by (simp add: try_request origin_def anchor_A_def target_T1_def target_T2_def
        scenario_state_def scenario_request_def)
  have s1: "num_sum exact (map (\<lambda>j. to_miles exact (subscript (or_empty (distances unreachable_body) ! 0)
                (length (placesToStay scenario_state) + j))) [0..<length (pointsOfInterest scenario_state)])
            = Fin 0.621371"
    and s2: "num_sum exact (map (\<lambda>j. to_minutes exact (subscript (or_empty (durations unreachable_body) ! 0)
                (length (placesToStay scenario_state) + j))) [0..<length (pointsOfInterest scenario_state)])
            = Fin 1"
    and s3: "num_sum exact (map (\<lambda>j. to_miles exact (subscript (or_empty (distances short_row_body) ! 0)
                (length (placesToStay scenario_state) + j))) [0..<length (pointsOfInterest scenario_state)])
            = NaN"
    and s4: "num_sum exact (map (\<lambda>j. to_minutes exact (subscript (or_empty (durations short_row_body) ! 0)
                (length (placesToStay scenario_state) + j))) [0..<length (pointsOfInterest scenario_state)])
            = NaN"
    by (simp_all add: scenario_state_def unreachable_body_def short_row_body_def subscript_def
        or_empty_def num_sum_def to_miles_def to_minutes_def exact_def upt_rec)
  from unreachable_cell_policy[where rnd = exact and client = unreachable_client
      and st = scenario_state and body = unreachable_body and i = 0 and j = 0,
      OF h1 h2 h3 h4 h5] h6 h7 c1 c2 rq s1 s2
  have null_cell: "\<exists>updated m.
        calculateDistances exact unreachable_client scenario_state
          = Returns (scenario_state\<lparr>placesToStay := updated, requests := [scenario_request]\<rparr>)
      \<and> distancesToPOIs (updated ! 0) = Some m
      \<and> dom m = {''T1'', ''T2''}
      \<and> m ''T1'' = Some \<lparr>distance = Fin 0, duration = Fin 0\<rparr>
      \<and> cumulativeDistance (updated ! 0) = Some (Fin 0.621371)
      \<and> cumulativeTime (updated ! 0) = Some (Fin 1)"
    by (auto simp: scenario_state_def target_T1_def target_T2_def)
  from unreachable_cell_policy[where rnd = exact and client = short_row_client
      and st = scenario_state and body = short_row_body and i = 0 and j = 1,
      OF g1 g2 g3 h4 g5] h6 d1 d2 rq s3 s4
  have missing_cell: "\<exists>updated m.
        calculateDistances exact short_row_client scenario_state
          = Returns (scenario_state\<lparr>placesToStay := updated, requests := [scenario_request]\<rparr>)
      \<and> distancesToPOIs (updated ! 0) = Some m
      \<and> dom m = {''T1'', ''T2''}
      \<and> m ''T2'' = Some \<lparr>distance = NaN, duration = NaN\<rparr>
      \<and> cumulativeDistance (updated ! 0) = Some NaN
      \<and> cumulativeTime (updated ! 0) = Some NaN"
    by (auto simp: scenario_state_def target_T1_def target_T2_def)
  from h1 h2 h3 h4 h5 h6 h7 c1 c2 null_cell g1 g2 g3 g5 d1 d2 missing_cell
  show ?thesis by blast
qed

text \<open>
  C1, the counterexample to the claim as stated, in exact arithmetic: with \<^verbatim>\<open>null\<close> in
  column 1 of both matrices, \<^verbatim>\<open>calculateDistances\<close> stores a result, logs nothing, and
  the result records distance 0 and duration 0 for that point of interest.
\<close>

theorem unreachable_cell_coerced:
  "calculateDistances exact unreachable_client scenario_state
     = Returns (scenario_state\<lparr>placesToStay := [unreachable_result],
                               requests := [scenario_request]\<rparr>)
   \<and> subscript (or_empty (distances unreachable_body) ! 0) 1 = Some Null
   \<and> subscript (or_empty (durations unreachable_body) ! 0) 1 = Some Null
   \<and> Option.bind (distancesToPOIs unreachable_result) (\<lambda>m. m ''T1'')
       = Some \<lparr>distance = Fin 0, duration = Fin 0\<rparr>
   \<and> cumulativeDistance unreachable_result = Some (Fin 0.621371)"
  by (simp add: origin_def anchor_A_def target_T1_def target_T2_def scenario_state_def
      scenario_request_def unreachable_body_def unreachable_client_def unreachable_result_def
      run_defs)

text \<open>
  C2. The request lists the coordinates of the places to stay, then those of the points
  of interest, each list in its order (longitude before latitude in each point). After a
  successful run, the entry that place \<open>i\<close> holds for point of interest \<open>j\<close> is
  converted from row \<open>i\<close>, column \<open>length placesToStay + j\<close> of the two matrices of the
  response. The ids of the points of interest are taken to be distinct, since the entry
  is stored under the id.
\<close>

theorem aggregate_positional:
  assumes "calculateDistances_try rnd client st = (req, outcome)"
    and "i < length (placesToStay st)"
    and "j < length (pointsOfInterest st)"
    and "distinct (map id' (pointsOfInterest st))"
  shows "points req
           = map (\<lambda>p. [lon (coordinates (location p)), lat (coordinates (location p))])
               (placesToStay st)
             @ map (\<lambda>p. [lon (coordinates (location p)), lat (coordinates (location p))])
                 (pointsOfInterest st)
       \<and> (\<forall>updated. outcome = Returns updated \<longrightarrow>
             calculateDistances rnd client st
               = Returns (st\<lparr>placesToStay := updated, requests := requests st @ [req]\<rparr>)
           \<and> (\<exists>body m. client req = Resolved 200 body
                 \<and> distancesToPOIs (updated ! i) = Some m
                 \<and> m (id' (pointsOfInterest st ! j))
                     = Some \<lparr>distance = to_miles rnd (subscript (or_empty (distances body) ! i)
                                            (length (placesToStay st) + j)),
                             duration = to_minutes rnd (subscript (or_empty (durations body) ! i)
                                            (length (placesToStay st) + j))\<rparr>))"
proof (intro conjI allI impI)
  from assms(1) have req: "fst (calculateDistances_try rnd client st) = req" by simp
  show "points req
           = map (\<lambda>p. [lon (coordinates (location p)), lat (coordinates (location p))])
               (placesToStay st)
             @ map (\<lambda>p. [lon (coordinates (location p)), lat (coordinates (location p))])
                 (pointsOfInterest st)"
    using try_request[of rnd client st] req by simp
next
  fix updated
  assume "outcome = Returns updated"
  with assms(1) have tr: "calculateDistances_try rnd client st = (req, Returns updated)" by simp
  from assms(2,3) have ne: "placesToStay st \<noteq> []" "pointsOfInterest st \<noteq> []" by auto
  show "calculateDistances rnd client st
           = Returns (st\<lparr>placesToStay := updated, requests := requests st @ [req]\<rparr>)"
    by (rule calculateDistances_returns[OF tr ne])
  from try_entries[OF tr ne(2) assms(2)] assms(3,4)
  show "\<exists>body m. client req = Resolved 200 body
             \<and> distancesToPOIs (updated ! i) = Some m
             \<and> m (id' (pointsOfInterest st ! j))
                 = Some \<lparr>distance = to_miles rnd (subscript (or_empty (distances body) ! i)
                                        (length (placesToStay st) + j)),
                         duration = to_minutes rnd (subscript (or_empty (durations body) ! i)
                                        (length (placesToStay st) + j))\<rparr>"
    by blast
qed

text \<open>
  C2, the scenario of the specification: distances \<open>[[0, 1000, 3000]]\<close> and durations
  \<open>[[0, 60, 180]]\<close>.
\<close>

theorem aggregate_positional_witness:
  "calculateDistances_try exact scenario_client scenario_state
     = (scenario_request, Returns [scenario_result])
   \<and> 0 < length (placesToStay scenario_state)
   \<and> 1 < length (pointsOfInterest scenario_state)
   \<and> distinct (map id' (pointsOfInterest scenario_state))
   \<and> points scenario_request = [[0, 0], [0, 0], [0, 0]]
   \<and> calculateDistances exact scenario_client scenario_state
       = Returns (scenario_state\<lparr>placesToStay := [scenario_result],
                                 requests := [scenario_request]\<rparr>)
   \<and> (\<exists>m. distancesToPOIs scenario_result = Some m
         \<and> m ''T2'' = Some \<lparr>distance = Fin 1.864113, duration = Fin 3\<rparr>)"
proof -
  have h1: "calculateDistances_try exact scenario_client scenario_state
              = (scenario_request, Returns [scenario_result])"
    by (simp add: origin_def anchor_A_def target_T1_def target_T2_def scenario_state_def
        scenario_request_def scenario_client_def scenario_result_def scenario_body_def
        run_defs)
  have h2: "0 < length (placesToStay scenario_state)"
    and h3: "1 < length (pointsOfInterest scenario_state)"
    and h4: "distinct (map id' (pointsOfInterest scenario_state))"
    by (simp_all add: origin_def anchor_A_def target_T1_def target_T2_def scenario_state_def
        scenario_request_def scenario_client_def scenario_result_def scenario_body_def)
  from aggregate_positional[OF h1 h2 h3 h4]
  have "points scenario_request = [[0, 0], [0, 0], [0, 0]]
   \<and> calculateDistances exact scenario_client scenario_state
       = Returns (scenario_state\<lparr>placesToStay := [scenario_result],
                                 requests := [scenario_request]\<rparr>)
   \<and> (\<exists>m. distancesToPOIs scenario_result = Some m
         \<and> m ''T2'' = Some \<lparr>distance = Fin 1.864113, duration = Fin 3\<rparr>)"
    by (simp add: origin_def anchor_A_def target_T1_def target_T2_def scenario_state_def
        scenario_request_def scenario_client_def scenario_result_def scenario_body_def
        subscript_def to_miles_def to_minutes_def or_empty_def)
  with h1 h2 h3 h4 show ?thesis by simp
qed

text \<open>
  C3. A distance of \<open>meters\<close> in the matrix is stored as \<open>meters / 1000 * 0.621371\<close>
  and a duration of \<open>seconds\<close> as \<open>seconds / 60\<close>, evaluated as the code writes them:
  the quotient is rounded, and so is its product with the binary64 value of 0.621371. For a
  rounding that leaves 1 and 2 as they are, 1000 meters are stored as the binary64 value
  of 0.621371 and 120 seconds as 2.
\<close>

theorem conversion_formula:
  assumes "calculateDistances_try rnd client st = (req, Returns updated)"
    and "i < length (placesToStay st)"
    and "j < length (pointsOfInterest st)"
    and "distinct (map id' (pointsOfInterest st))"
    and "client req = Resolved 200 body"
    and "subscript (or_empty (distances body) ! i) (length (placesToStay st) + j) = Some (Num meters)"
    and "subscript (or_empty (durations body) ! i) (length (placesToStay st) + j) = Some (Num seconds)"
  shows "(\<exists>m. distancesToPOIs (updated ! i) = Some m
            \<and> m (id' (pointsOfInterest st ! j))
                = Some \<lparr>distance = Fin (rnd (rnd (meters / 1000) * rnd 0.621371)),
                        duration = Fin (rnd (seconds / 60))\<rparr>)
       \<and> to_miles rnd (Some (Num meters)) = Fin (rnd (rnd (meters / 1000) * rnd 0.621371))
       \<and> to_minutes rnd (Some (Num seconds)) = Fin (rnd (seconds / 60))
       \<and> to_miles exact (Some (Num meters)) = Fin (meters / 1000 * 0.621371)
       \<and> to_minutes exact (Some (Num seconds)) = Fin (seconds / 60)
       \<and> (rnd 1 = 1 \<and> rnd (rnd 0.621371) = rnd 0.621371 \<longrightarrow>
            to_miles rnd (Some (Num 1000)) = Fin (rnd 0.621371))
       \<and> (rnd 2 = 2 \<longrightarrow> to_minutes rnd (Some (Num 120)) = Fin 2)"
proof -
  from assms(3) have ne: "pointsOfInterest st \<noteq> []" by auto
  have mi: "to_miles rnd (Some (Num meters)) = Fin (rnd (rnd (meters / 1000) * rnd 0.621371))"
    by (simp add: to_miles_def)
  have mn: "to_minutes rnd (Some (Num seconds)) = Fin (rnd (seconds / 60))"
    by (simp add: to_minutes_def)
  have ex: "to_miles exact (Some (Num meters)) = Fin (meters / 1000 * 0.621371)"
    "to_minutes exact (Some (Num seconds)) = Fin (seconds / 60)"
    by (simp_all add: to_miles_def to_minutes_def exact_def)
  have at: "rnd 1 = 1 \<and> rnd (rnd 0.621371) = rnd 0.621371 \<longrightarrow>
            to_miles rnd (Some (Num 1000)) = Fin (rnd 0.621371)"
    "rnd 2 = 2 \<longrightarrow> to_minutes rnd (Some (Num 120)) = Fin 2"
    by (simp_all add: to_miles_def to_minutes_def)
  from try_entries[OF assms(1) ne assms(2)] assms(3,4,5) obtain m where
    "distancesToPOIs (updated ! i) = Some m"
    and "m (id' (pointsOfInterest st ! j))
             = Some \<lparr>distance = to_miles rnd (subscript (or_empty (distances body) ! i)
                                    (length (placesToStay st) + j)),
                     duration = to_minutes rnd (subscript (or_empty (durations body) ! i)
                                    (length (placesToStay st) + j))\<rparr>"
    by auto
  with assms(6,7) mi mn have
    "\<exists>m. distancesToPOIs (updated ! i) = Some m
            \<and> m (id' (pointsOfInterest st ! j))
                = Some \<lparr>distance = Fin (rnd (rnd (meters / 1000) * rnd 0.621371)),
                        duration = Fin (rnd (seconds / 60))\<rparr>"
    by simp
  with mi mn ex at show ?thesis by (intro conjI)
qed

text \<open>
  C3, at 1000 meters and 120 seconds in exact arithmetic: 0.621371 miles and 2 minutes.
\<close>

theorem conversion_formula_witness:
  "calculateDistances_try exact conversion_client scenario_state
     = (scenario_request, Returns [conversion_result])
   \<and> 0 < length (placesToStay scenario_state)
   \<and> 0 < length (pointsOfInterest scenario_state)
   \<and> distinct (map id' (pointsOfInterest scenario_state))
   \<and> conversion_client scenario_request = Resolved 200 conversion_body
   \<and> subscript (or_empty (distances conversion_body) ! 0) (length (placesToStay scenario_state) + 0)
       = Some (Num 1000)
   \<and> subscript (or_empty (durations conversion_body) ! 0) (length (placesToStay scenario_state) + 0)
       = Some (Num 120)
   \<and> exact 1 = 1 \<and> exact (exact 0.621371) = exact 0.621371 \<and> exact 2 = 2
   \<and> (\<exists>m. distancesToPOIs conversion_result = Some m
         \<and> m ''T1'' = Some \<lparr>distance = Fin 0.621371, duration = Fin 2\<rparr>)
   \<and> to_miles exact (Some (Num 1000)) = Fin 0.621371
   \<and> to_minutes exact (Some (Num 120)) = Fin 2"
proof -
  have h1: "calculateDistances_try exact conversion_client scenario_state
              = (scenario_request, Returns [conversion_result])"
    by (simp add: origin_def anchor_A_def target_T1_def target_T2_def scenario_state_def
        scenario_request_def conversion_body_def conversion_client_def conversion_result_def
        run_defs)
  have h2: "0 < length (placesToStay scenario_state)"
    and h3: "0 < length (pointsOfInterest scenario_state)"
    and h4: "distinct (map id' (pointsOfInterest scenario_state))"
    by (simp_all add: target_T1_def target_T2_def scenario_state_def)
  have h5: "conversion_client scenario_request = Resolved 200 conversion_body"
    by (simp add: conversion_client_def)
  have h6: "subscript (or_empty (distances conversion_body) ! 0)
              (length (placesToStay scenario_state) + 0) = Some (Num 1000)"
    and h7: "subscript (or_empty (durations conversion_body) ! 0)
              (length (placesToStay scenario_state) + 0) = Some (Num 120)"
    by (simp_all add: scenario_state_def conversion_body_def subscript_def or_empty_def)
  have r: "exact 1 = 1" "exact (exact 0.621371) = exact 0.621371" "exact 2 = 2"
    by (simp_all add: exact_def)
  from conversion_formula[OF h1 h2 h3 h4 h5 h6 h7] r
  have "(\<exists>m. distancesToPOIs conversion_result = Some m
         \<and> m ''T1'' = Some \<lparr>distance = Fin 0.621371, duration = Fin 2\<rparr>)
   \<and> to_miles exact (Some (Num 1000)) = Fin 0.621371
   \<and> to_minutes exact (Some (Num 120)) = Fin 2"
    by (simp add: target_T1_def target_T2_def scenario_state_def exact_def)
  with h1 h2 h3 h4 h5 h6 h7 r show ?thesis by simp
qed

text \<open>
  C4, as the code has it. When the matrix client rejects or answers with a status other
  than 200, the try block throws (the rejection, or the HTTP error of
  \<^verbatim>\<open>fetchMapBoxDirectionsMatrix\<close>) before \<^verbatim>\<open>setPlacesToStay\<close> is reached. The
  \<^verbatim>\<open>catch\<close> passes the error to \<^verbatim>\<open>console.error\<close>, so \<^verbatim>\<open>calculateDistances\<close>
  itself completes normally: its caller sees no error. The places to stay, with all their
  derived fields, are what they were.
\<close>

theorem provider_failure_caught:
  assumes "placesToStay st \<noteq> []" and "pointsOfInterest st \<noteq> []"
    and "\<forall>body. client (fst (calculateDistances_try rnd client st)) \<noteq> Resolved 200 body"
  shows "\<exists>e st'. snd (calculateDistances_try rnd client st) = Throws e
           \<and> (e = ClientRejected \<or> (\<exists>code. e = HTTPError code \<and> code \<noteq> 200))
           \<and> calculateDistances rnd client st = Returns st'
           \<and> st' = st\<lparr>requests := requests st @ [fst (calculateDistances_try rnd client st)],
                       console := console st @ [e]\<rparr>
           \<and> placesToStay st' = placesToStay st"
proof -
  obtain req r where tr: "calculateDistances_try rnd client st = (req, r)"
    by (cases "calculateDistances_try rnd client st")
  then have req: "fst (calculateDistances_try rnd client st) = req"
    and r: "snd (calculateDistances_try rnd client st) = r" by simp_all
  have caught: "calculateDistances rnd client st
      = Returns (st\<lparr>requests := requests st @ [req], console := console st @ [e]\<rparr>)"
    if "r = Throws e" for e
    using that tr assms(1,2) by (simp add: calculateDistances_def)
  show ?thesis
  proof (cases "client req")
    case Rejected
    then have thrown: "r = Throws ClientRejected"
      using try_unfold[of rnd client st] req r by simp
    from caught[OF thrown] thrown req r show ?thesis by simp
  next
    case (Resolved code body)
    with assms(3) req have c: "code \<noteq> 200" by auto
    with Resolved have thrown: "r = Throws (HTTPError code)"
      using try_unfold[of rnd client st] req r by simp
    from caught[OF thrown] thrown req r c show ?thesis by simp
  qed
qed

text \<open>
  C4, an instance: status 500, with a place that carries derived fields.
\<close>

theorem provider_failure_caught_witness:
  "placesToStay (scenario_state\<lparr>placesToStay := [stale_A]\<rparr>) \<noteq> []
   \<and> pointsOfInterest (scenario_state\<lparr>placesToStay := [stale_A]\<rparr>) \<noteq> []
   \<and> (\<forall>body. failing_client
         (fst (calculateDistances_try exact failing_client (scenario_state\<lparr>placesToStay := [stale_A]\<rparr>)))
           \<noteq> Resolved 200 body)
   \<and> (\<exists>e st'. snd (calculateDistances_try exact failing_client
                      (scenario_state\<lparr>placesToStay := [stale_A]\<rparr>)) = Throws e
         \<and> calculateDistances exact failing_client (scenario_state\<lparr>placesToStay := [stale_A]\<rparr>)
             = Returns st'
         \<and> console st' = [e]
         \<and> placesToStay st' = [stale_A])"
proof -
  let ?st = "scenario_state\<lparr>placesToStay := [stale_A]\<rparr>"
  have h1: "placesToStay ?st \<noteq> []" and h2: "pointsOfInterest ?st \<noteq> []"
    by (simp_all add: origin_def anchor_A_def target_T1_def target_T2_def scenario_state_def
        scenario_request_def)
  have h3: "\<forall>body. failing_client (fst (calculateDistances_try exact failing_client ?st))
              \<noteq> Resolved 200 body"
    by (simp add: failing_client_def)
  from provider_failure_caught[where st = "?st" and client = failing_client and rnd = exact, OF h1 h2 h3]
  have "\<exists>e st'. snd (calculateDistances_try exact failing_client ?st) = Throws e
         \<and> calculateDistances exact failing_client ?st = Returns st'
         \<and> console st' = [e]
         \<and> placesToStay st' = [stale_A]"
    by (auto simp: scenario_state_def)
  with h1 h2 h3 show ?thesis by simp
qed

text \<open>
  C4, the counterexample to the claim as stated: at status 500
  \<^verbatim>\<open>calculateDistances\<close> returns, with the error on the console; it does not fail with
  that error.
\<close>

theorem provider_failure_swallowed:
  "calculateDistances exact failing_client (scenario_state\<lparr>placesToStay := [stale_A]\<rparr>)
     = Returns (scenario_state\<lparr>placesToStay := [stale_A], requests := [scenario_request],
                               console := [HTTPError 500]\<rparr>)
   \<and> calculateDistances exact failing_client (scenario_state\<lparr>placesToStay := [stale_A]\<rparr>)
       \<noteq> Throws (HTTPError 500)"
  by (simp add: origin_def anchor_A_def target_T1_def target_T2_def scenario_state_def
      scenario_request_def failing_client_def stale_A_def run_defs)

text \<open>
  C5. With no place to stay or no point of interest, \<^verbatim>\<open>calculateDistances\<close> returns
  at once: the state is unchanged, including the list of requests sent to the client.
\<close>

theorem empty_input_noop:
  assumes "placesToStay st = [] \<or> pointsOfInterest st = []"
  shows "calculateDistances rnd client st = Returns st"
  using assms by (auto simp: calculateDistances_def)

text \<open>
  C5, an instance: the scenario without its points of interest.
\<close>

theorem empty_input_noop_witness:
  "(placesToStay (scenario_state\<lparr>pointsOfInterest := []\<rparr>) = []
      \<or> pointsOfInterest (scenario_state\<lparr>pointsOfInterest := []\<rparr>) = [])
   \<and> calculateDistances exact scenario_client (scenario_state\<lparr>pointsOfInterest := []\<rparr>)
       = Returns (scenario_state\<lparr>pointsOfInterest := []\<rparr>)
   \<and> requests (scenario_state\<lparr>pointsOfInterest := []\<rparr>) = []"
proof -
  have h: "placesToStay (scenario_state\<lparr>pointsOfInterest := []\<rparr>) = []
      \<or> pointsOfInterest (scenario_state\<lparr>pointsOfInterest := []\<rparr>) = []"
    by simp
  from empty_input_noop[OF h, of exact scenario_client] h show ?thesis
    by (simp add: scenario_state_def)
qed




text \<open>
  C7. After a successful run with at least one point of interest, \<^verbatim>\<open>calculateDistances\<close>
  stores the new list of places, one for each place it had. In each of them the keys of
  \<^verbatim>\<open>distancesToPOIs\<close> are exactly the ids of the points of interest and the four scalars
  are all set. The run stores the same list whatever the five derived fields of the places
  held before: nothing of them is kept.
\<close>

theorem aggregate_replaces:
  assumes "calculateDistances_try rnd client st = (req, Returns updated)"
    and "pointsOfInterest st \<noteq> []"
    and "i < length (placesToStay st)"
  shows "calculateDistances rnd client st
           = Returns (st\<lparr>placesToStay := updated, requests := requests st @ [req]\<rparr>)
       \<and> length updated = length (placesToStay st)
       \<and> (\<exists>m. distancesToPOIs (updated ! i) = Some m \<and> dom m = id' ` set (pointsOfInterest st))
       \<and> averageDistance (updated ! i) \<noteq> None
       \<and> cumulativeDistance (updated ! i) \<noteq> None
       \<and> averageTime (updated ! i) \<noteq> None
       \<and> cumulativeTime (updated ! i) \<noteq> None
       \<and> calculateDistances rnd client
           (st\<lparr>placesToStay :=
                 map (\<lambda>p. p\<lparr>averageDistance := a p, cumulativeDistance := b p,
                             averageTime := t p, cumulativeTime := u p,
                             distancesToPOIs := d p\<rparr>) (placesToStay st)\<rparr>)
           = Returns (st\<lparr>placesToStay := updated, requests := requests st @ [req]\<rparr>)"
proof -
  let ?stale = "st\<lparr>placesToStay :=
                 map (\<lambda>p. p\<lparr>averageDistance := a p, cumulativeDistance := b p,
                             averageTime := t p, cumulativeTime := u p,
                             distancesToPOIs := d p\<rparr>) (placesToStay st)\<rparr>"
  from assms(3) have ne: "placesToStay st \<noteq> []" by auto
  have stored: "calculateDistances rnd client st
           = Returns (st\<lparr>placesToStay := updated, requests := requests st @ [req]\<rparr>)"
    by (rule calculateDistances_returns[OF assms(1) ne assms(2)])
  from assms(1) have "snd (calculateDistances_try rnd client st) = Returns updated" by simp
  from try_returns[OF this assms(2)]
  have len: "length updated = length (placesToStay st)" by blast
  from try_entries[OF assms]
  have keys: "\<exists>m. distancesToPOIs (updated ! i) = Some m \<and> dom m = id' ` set (pointsOfInterest st)"
    by blast
  from try_totals[OF assms]
  have scalars: "averageDistance (updated ! i) \<noteq> None" "cumulativeDistance (updated ! i) \<noteq> None"
    "averageTime (updated ! i) \<noteq> None" "cumulativeTime (updated ! i) \<noteq> None"
    by auto
  have tr: "calculateDistances_try rnd client ?stale = (req, Returns updated)"
    using assms(1) by (simp only: try_ignores_derived)
  have "calculateDistances rnd client ?stale
           = Returns (?stale\<lparr>placesToStay := updated, requests := requests ?stale @ [req]\<rparr>)"
    using ne assms(2) by (intro calculateDistances_returns[OF tr]) simp_all
  then have again: "calculateDistances rnd client ?stale
           = Returns (st\<lparr>placesToStay := updated, requests := requests st @ [req]\<rparr>)"
    by simp
  from stored len keys scalars again show ?thesis by (intro conjI)
qed

text \<open>
  C7, an instance in exact arithmetic: a place with a stale entry for a point of interest
  that no longer exists gets the result that a place never aggregated gets.
\<close>

theorem aggregate_replaces_witness:
  "calculateDistances_try exact scenario_client (scenario_state\<lparr>placesToStay := [stale_A]\<rparr>)
     = (scenario_request, Returns [scenario_result])
   \<and> pointsOfInterest (scenario_state\<lparr>placesToStay := [stale_A]\<rparr>) \<noteq> []
   \<and> 0 < length (placesToStay (scenario_state\<lparr>placesToStay := [stale_A]\<rparr>))
   \<and> calculateDistances exact scenario_client (scenario_state\<lparr>placesToStay := [stale_A]\<rparr>)
       = Returns (scenario_state\<lparr>placesToStay := [scenario_result],
                                 requests := [scenario_request]\<rparr>)
   \<and> (\<exists>m. distancesToPOIs scenario_result = Some m \<and> dom m = {''T1'', ''T2''})
   \<and> averageDistance scenario_result = Some (Fin 1.242742)
   \<and> calculateDistances exact scenario_client (scenario_state\<lparr>placesToStay := [anchor_A]\<rparr>)
       = Returns (scenario_state\<lparr>placesToStay := [scenario_result],
                                 requests := [scenario_request]\<rparr>)"
proof -
  let ?st = "scenario_state\<lparr>placesToStay := [stale_A]\<rparr>"
  have h1: "calculateDistances_try exact scenario_client ?st
              = (scenario_request, Returns [scenario_result])"
    by (simp add: origin_def anchor_A_def target_T1_def target_T2_def scenario_state_def
        scenario_request_def scenario_body_def scenario_client_def scenario_result_def
        stale_A_def run_defs)
  have h2: "pointsOfInterest ?st \<noteq> []"
    and h3: "0 < length (placesToStay ?st)"
    by (simp_all add: scenario_state_def)
  from aggregate_replaces[OF h1 h2 h3, of "\<lambda>p. None" "\<lambda>p. None" "\<lambda>p. None" "\<lambda>p. None" "\<lambda>p. None"]
  have "calculateDistances exact scenario_client ?st
       = Returns (scenario_state\<lparr>placesToStay := [scenario_result],
                                 requests := [scenario_request]\<rparr>)
   \<and> (\<exists>m. distancesToPOIs scenario_result = Some m \<and> dom m = {''T1'', ''T2''})
   \<and> averageDistance scenario_result = Some (Fin 1.242742)
   \<and> calculateDistances exact scenario_client (scenario_state\<lparr>placesToStay := [anchor_A]\<rparr>)
       = Returns (scenario_state\<lparr>placesToStay := [scenario_result],
                                 requests := [scenario_request]\<rparr>)"
    by (simp add: origin_def anchor_A_def target_T1_def target_T2_def scenario_state_def
        scenario_request_def scenario_body_def scenario_client_def scenario_result_def
        stale_A_def)
  with h1 h2 h3 show ?thesis by simp
qed

section \<open>Ranking\<close>

text \<open>
  C8. The list shown by \<^verbatim>\<open>PlacesToStayDisplay\<close> is in non-decreasing order of its
  sort key, and the places with any one key value appear in the order they had in the
  input (the sort is stable). The key is \<^verbatim>\<open>averageDistance || 0\<close> in mode average and
  \<^verbatim>\<open>cumulativeDistance || 0\<close> otherwise: the field's own value when it is a number, and
  0 when it is undefined or NaN.
\<close>

theorem rank_sorted_stable:
  "sorted (map (sort_distance mode) (sortedPlacesToStay mode xs))
   \<and> (\<forall>k. filter (\<lambda>a. sort_distance mode a = k) (sortedPlacesToStay mode xs)
          = filter (\<lambda>a. sort_distance mode a = k) xs)
   \<and> sort_distance average a = or_zero (averageDistance a)
   \<and> sort_distance cumulative a = or_zero (cumulativeDistance a)
   \<and> or_zero None = 0
   \<and> or_zero (Some (Fin x)) = x
   \<and> or_zero (Some NaN) = 0
   \<and> sort_distance average (a\<lparr>averageDistance := Some (Fin x)\<rparr>) = x
   \<and> sort_distance cumulative (a\<lparr>cumulativeDistance := Some (Fin x)\<rparr>) = x
   \<and> sort_distance average (a\<lparr>averageDistance := None\<rparr>) = 0
   \<and> sort_distance cumulative (a\<lparr>cumulativeDistance := None\<rparr>) = 0"
proof -
  have ordered: "sorted (map (sort_distance mode) (sortedPlacesToStay mode xs))"
    by (simp add: sortedPlacesToStay_sort_key)
  have stable: "\<forall>k. filter (\<lambda>a. sort_distance mode a = k) (sortedPlacesToStay mode xs)
                   = filter (\<lambda>a. sort_distance mode a = k) xs"
    unfolding sortedPlacesToStay_sort_key by (simp only: sort_key_stable simp_thms)
  have keys: "sort_distance average a = or_zero (averageDistance a)"
    "sort_distance cumulative a = or_zero (cumulativeDistance a)"
    "sort_distance average (a\<lparr>averageDistance := Some (Fin x)\<rparr>) = x"
    "sort_distance cumulative (a\<lparr>cumulativeDistance := Some (Fin x)\<rparr>) = x"
    "sort_distance average (a\<lparr>averageDistance := None\<rparr>) = 0"
    "sort_distance cumulative (a\<lparr>cumulativeDistance := None\<rparr>) = 0"
    by (simp_all add: sort_distance_def)
  from ordered stable keys show ?thesis by simp
qed

text \<open>
  C9. Sorting the sorted list again, in the same mode, changes nothing.
\<close>

theorem rank_idempotent:
  "sortedPlacesToStay mode (sortedPlacesToStay mode xs) = sortedPlacesToStay mode xs"
  by (simp add: sortedPlacesToStay_sort_key sort_key_id_if_sorted)

text \<open>
  C10. The sort has no failing branch: for every array in the store it yields a result.
  It works on a fresh copy, so every array that was in the store, the input among them,
  is what it was; the copy holds the same places as the input, each as often.
\<close>

theorem rank_pure_total:
  assumes "r < length h"
  shows "\<exists>c h'. PlacesToStayDisplay_sort mode r h = (c, h')
           \<and> c \<noteq> r
           \<and> (\<forall>q < length h. h' ! q = h ! q)
           \<and> h' ! c = sortedPlacesToStay mode (h ! r)
           \<and> mset (h' ! c) = mset (h ! r)"
  using assms
  by (simp add: PlacesToStayDisplay_sort_def spread_def sort_in_place_def
      sortedPlacesToStay_sort_key sortedPlacesToStay_def[symmetric] nth_append)

text \<open>
  C10, an instance: three places out of order, one of them never aggregated.
\<close>

theorem rank_pure_total_witness:
  "0 < length display_store
   \<and> PlacesToStayDisplay_sort average 0 display_store
       = (1, [[anchor_far, anchor_near, anchor_A], [anchor_A, anchor_near, anchor_far]])
   \<and> (\<exists>c h'. PlacesToStayDisplay_sort average 0 display_store = (c, h')
         \<and> c \<noteq> 0
         \<and> h' ! 0 = display_store ! 0
         \<and> h' ! c = sortedPlacesToStay average (display_store ! 0)
         \<and> mset (h' ! c) = mset (display_store ! 0))"
proof -
  have h: "0 < length display_store" by (simp add: display_store_def)
  have run: "PlacesToStayDisplay_sort average 0 display_store
       = (1, [[anchor_far, anchor_near, anchor_A], [anchor_A, anchor_near, anchor_far]])"
    by (simp add: display_store_def PlacesToStayDisplay_sort_def spread_def sort_in_place_def
        array_sort_def compare_places_def sort_distance_def anchor_near_def anchor_far_def anchor_A_def)
  from rank_pure_total[OF h, of average] h
  have "\<exists>c h'. PlacesToStayDisplay_sort average 0 display_store = (c, h')
         \<and> c \<noteq> 0
         \<and> h' ! 0 = display_store ! 0
         \<and> h' ! c = sortedPlacesToStay average (display_store ! 0)
         \<and> mset (h' ! c) = mset (display_store ! 0)"
    by blast
  with h run show ?thesis by blast
qed

end
